theory Spec2Isabelle
  imports Main
begin

section \<open>The istio-cni chained plugin: data model\<close>

text \<open>
  The development embeds \<^verbatim>\<open>cmd/istio-cni/main.go\<close>. A Go \<^verbatim>\<open>error\<close> value is
  an \<open>error\<close>; a function returning \<^verbatim>\<open>error\<close> alone yields \<open>error option\<close>
  (\<open>None\<close> is \<^verbatim>\<open>nil\<close>), a function returning \<^verbatim>\<open>(T, error)\<close> yields
  \<open>error + T\<close>. \<open>Err\<close> carries the message of an error value;
  \<open>InvalidRedirectParameters\<close> is the construction error the specification names
  for the redirect builder.
\<close>

datatype error = Err string | InvalidRedirectParameters

text \<open>\<^verbatim>\<open>fmt.Errorf("<prefix>: %v", err)\<close>: the prefix followed by the printed error.\<close>

fun errorText :: "error \<Rightarrow> string" where
  "errorText (Err m) = m"
| "errorText InvalidRedirectParameters = ''invalid redirect parameters''"

definition Errorf :: "string \<Rightarrow> error \<Rightarrow> error" where
  "Errorf prefix err = Err (prefix @ errorText err)"

text \<open>The struct \<^verbatim>\<open>Kubernetes\<close> (lines 47-54).\<close>

record Kubernetes =
  K8sAPIRoot :: string
  Kubeconfig :: string
  NodeName :: string
  ExcludeNamespaces :: "string list"
  CniBinDir :: string
  IptablesScript :: string

text \<open>
  \<^verbatim>\<open>current.Result\<close> of the CNI library: its version field and, opaque here, the
  rest of its payload.
\<close>

record Result =
  ResultCNIVersion :: string
  ResultPayload :: string

text \<open>
  The struct \<^verbatim>\<open>PluginConf\<close> (lines 59-78); of the embedded \<^verbatim>\<open>types.NetConf\<close>
  only \<^verbatim>\<open>CNIVersion\<close> is read. The raw previous result is an opaque JSON text.
\<close>

record PluginConf =
  CNIVersion :: string
  RawPrevResult :: "string option"
  PrevResult :: "Result option"
  LogLevel :: string
  Kubernetes :: Kubernetes

text \<open>The struct \<^verbatim>\<open>K8sArgs\<close> (lines 82-88).\<close>

record K8sArgs =
  IP :: string
  K8S_POD_NAME :: string
  K8S_POD_NAMESPACE :: string
  K8S_POD_INFRA_CONTAINER_ID :: string

text \<open>\<^verbatim>\<open>skel.CmdArgs\<close> of the CNI library.\<close>

record CmdArgs =
  ContainerID :: string
  Netns :: string
  IfName :: string
  Args :: string
  Path :: string
  StdinData :: string

text \<open>
  What \<^verbatim>\<open>getKubePodInfo\<close> returns besides its error (line 192), one field for
  each variable the caller binds; the third value is bound to \<^verbatim>\<open>_\<close> and has no
  field. Ports are strings, as the type of \<^verbatim>\<open>setupRedirect\<close> (line 44) has them.
  This is the PodContext of the specification.
\<close>

record PodInfo =
  hasProxy :: bool
  containers :: "string list"
  annotations :: "string \<rightharpoonup> string"
  ports :: "string list"
  proxyUID :: int
  proxyGID :: int

text \<open>
  Modelled from the spec: the struct \<^verbatim>\<open>Redirect\<close> that \<^verbatim>\<open>NewRedirect\<close> returns is
  declared in a file of the repository that is not among the sources; the fields are
  those of the RedirectSpec of the specification (section 3).
\<close>

record RedirectSpec =
  specProxyUID :: int
  specProxyGID :: int
  specPorts :: "string list"
  specAnnotations :: "string \<rightharpoonup> string"

text \<open>
  The package-level variables (lines 35-44). \<^verbatim>\<open>setupRedirect\<close> is a function
  variable, \<^verbatim>\<open>nil\<close> unless a test assigns it.
\<close>

record globals =
  nsSetupBinDir :: string
  nsSetupProg :: string
  injectAnnotationKey :: string
  sidecarStatusKey :: string
  setupRedirect :: "(string \<Rightarrow> string list \<Rightarrow> error option) option"

definition initGlobals :: globals where
  "initGlobals =
     \<lparr>nsSetupBinDir = ''/opt/cni/bin'',
      nsSetupProg = ''istio-iptables.sh'',
      injectAnnotationKey = ''sidecar.istio.io/inject'',
      sidecarStatusKey = ''sidecar.istio.io/status'',
      setupRedirect = None\<rparr>"

text \<open>
  The collaborators of \<^verbatim>\<open>cmdAdd\<close> whose code is not in \<^verbatim>\<open>main.go\<close>: library
  functions (\<^verbatim>\<open>encoding/json\<close>, the CNI library) and the functions of the package
  defined in its other files. Each is a parameter; the functions of the package
  read the package-level variables, so they take the \<open>globals\<close>. They are taken
  not to assign the package-level variables.
\<close>

record collaborators =
  json_Unmarshal :: "string \<Rightarrow> error + PluginConf"
  json_Marshal :: "string \<Rightarrow> error + string"
  version_NewResult :: "string \<Rightarrow> string \<Rightarrow> error + string"
  current_NewResultFromResult :: "string \<Rightarrow> error + Result"
  ImplementedSpecVersion :: string
  types_LoadArgs :: "string \<Rightarrow> error + K8sArgs"
  types_PrintResult :: "Result \<Rightarrow> string \<Rightarrow> error option"
  newKubeClient :: "PluginConf \<Rightarrow> error + nat"
  getKubePodInfo :: "nat \<Rightarrow> string \<Rightarrow> string \<Rightarrow> error + PodInfo"
  NewRedirect :: "int \<Rightarrow> int \<Rightarrow> string list \<Rightarrow> (string \<rightharpoonup> string) \<Rightarrow> error + RedirectSpec"
  doRedirect :: "globals \<Rightarrow> RedirectSpec \<Rightarrow> string \<Rightarrow> error option"

text \<open>
  What an invocation does besides returning: every call of the logger and every call
  of a collaborator with an effect, in program order. A logging event records the call,
  whatever level the logger is set to.
\<close>

datatype logLevel = DebugLevel | InfoLevel | WarnLevel

datatype event =
    LogCmdAddParsingConfig
  | SetLevel logLevel
  | SetOutputStderr
  | LogConfigParsed string "Result option"
  | LogGettingIdentifiers string
  | LogLoadedK8sArgs K8sArgs
  | CallNewKubeClient
  | LogCreatedClient nat
  | CallGetKubePodInfo string string
  | LogErrorGettingPodData error
  | LogFoundContainers "string list"
  | LogCheckingAnnotations
  | LogContainsInjectAnnotation string string
  | LogExcludedInjectDisabled
  | LogExcludedNoSidecarAnnotation string
  | LogSettingUpRedirect
  | CallNewRedirect int int "string list"
  | LogRedirectFailedBadParams error
  | CallSetupRedirect string "string list"
  | CallDoRedirect string
  | LogPodExcluded
  | LogNoKubernetesData
  | CallPrintResult Result string

section \<open>Library functions\<close>

text \<open>
  \<^verbatim>\<open>strconv.ParseBool\<close> of the Go standard library accepts exactly twelve
  spellings; \<open>None\<close> is its syntax error.
\<close>

definition ParseBool :: "string \<Rightarrow> bool option" where
  "ParseBool str =
     (if str \<in> set [''1'', ''t'', ''T'', ''true'', ''TRUE'', ''True''] then Some True
      else if str \<in> set [''0'', ''f'', ''F'', ''false'', ''FALSE'', ''False''] then Some False
      else None)"

text \<open>
  \<^verbatim>\<open>strings.EqualFold\<close> against a word of the letters of \<^verbatim>\<open>debug\<close> and
  \<^verbatim>\<open>info\<close>: none of them has a fold partner outside ASCII, so the comparison is
  equality after lowering the ASCII capitals.
\<close>

definition lowerASCII :: "char \<Rightarrow> char" where
  "lowerASCII c =
     (let n = (of_char c :: nat) in if 65 \<le> n \<and> n \<le> 90 then char_of (n + 32) else c)"

definition EqualFold :: "string \<Rightarrow> string \<Rightarrow> bool" where
  "EqualFold s t = (map lowerASCII s = map lowerASCII t)"

section \<open>The functions of main.go\<close>

text \<open>\<^verbatim>\<open>parseConfig\<close> (lines 91-117).\<close>

definition parseConfig :: "collaborators \<Rightarrow> string \<Rightarrow> error + PluginConf" where
  "parseConfig x stdin =
     (case json_Unmarshal x stdin of
        Inl err \<Rightarrow> Inl (Errorf ''failed to parse network configuration: '' err)
      | Inr conf \<Rightarrow>
          (case RawPrevResult conf of
             None \<Rightarrow> Inr conf
           | Some raw \<Rightarrow>
               (case json_Marshal x raw of
                  Inl err \<Rightarrow> Inl (Errorf ''could not serialize prevResult: '' err)
                | Inr resultBytes \<Rightarrow>
                    (case version_NewResult x (CNIVersion conf) resultBytes of
                       Inl err \<Rightarrow> Inl (Errorf ''could not parse prevResult: '' err)
                     | Inr res \<Rightarrow>
                         (case current_NewResultFromResult x res of
                            Inl err \<Rightarrow>
                              Inl (Errorf ''could not convert result to current version: '' err)
                          | Inr r \<Rightarrow>
                              Inr (conf\<lparr>RawPrevResult := None, PrevResult := Some r\<rparr>))))))"

text \<open>\<^verbatim>\<open>ConfigureLogging\<close> (lines 120-131).\<close>

definition ConfigureLogging :: "string \<Rightarrow> event list" where
  "ConfigureLogging logLevel =
     [SetLevel (if EqualFold logLevel ''debug'' then DebugLevel
                else if EqualFold logLevel ''info'' then InfoLevel
                else WarnLevel),
      SetOutputStderr]"

text \<open>
  The assignments to the package-level variables in \<^verbatim>\<open>cmdAdd\<close> (lines 161-166).
\<close>

definition setBinaries :: "globals \<Rightarrow> PluginConf \<Rightarrow> globals" where
  "setBinaries g conf =
     (let g1 = (if CniBinDir (Kubernetes conf) \<noteq> ''''
                then g\<lparr>nsSetupBinDir := CniBinDir (Kubernetes conf)\<rparr> else g)
      in if IptablesScript (Kubernetes conf) \<noteq> ''''
         then g1\<lparr>nsSetupProg := IptablesScript (Kubernetes conf)\<rparr> else g1)"

text \<open>The loop over the excluded namespaces (lines 179-185): the value of \<^verbatim>\<open>excludePod\<close> after it.\<close>

fun excludedNamespace :: "string \<Rightarrow> string list \<Rightarrow> bool" where
  "excludedNamespace podNamespace [] = False"
| "excludedNamespace podNamespace (excludeNs # rest) =
     (if podNamespace = excludeNs then True else excludedNamespace podNamespace rest)"

text \<open>
  The two annotation checks (lines 208-220), from the value of \<^verbatim>\<open>excludePod\<close>
  before them to the events and its value after them. The second \<^verbatim>\<open>if\<close> is not
  an \<^verbatim>\<open>else\<close> of the first.
\<close>

definition injectCheck :: "globals \<Rightarrow> string \<Rightarrow> (string \<rightharpoonup> string) \<Rightarrow> bool \<Rightarrow> event list \<times> bool" where
  "injectCheck g podName ann excludePod =
     (case ann (injectAnnotationKey g) of
        None \<Rightarrow> ([], excludePod)
      | Some val \<Rightarrow>
          (case ParseBool val of
             None \<Rightarrow> ([LogContainsInjectAnnotation podName val], excludePod)
           | Some injectEnabled \<Rightarrow>
               if \<not> injectEnabled
               then ([LogContainsInjectAnnotation podName val, LogExcludedInjectDisabled], True)
               else ([LogContainsInjectAnnotation podName val], excludePod)))"

definition statusCheck :: "globals \<Rightarrow> string \<Rightarrow> (string \<rightharpoonup> string) \<Rightarrow> bool \<Rightarrow> event list \<times> bool" where
  "statusCheck g podName ann excludePod =
     (case ann (sidecarStatusKey g) of
        None \<Rightarrow> ([LogExcludedNoSidecarAnnotation podName], True)
      | Some _ \<Rightarrow> ([], excludePod))"

definition annotationChecks :: "globals \<Rightarrow> string \<Rightarrow> (string \<rightharpoonup> string) \<Rightarrow> bool \<Rightarrow> event list \<times> bool" where
  "annotationChecks g podName ann excludePod =
     (let (ev1, ex1) = injectCheck g podName ann excludePod;
          (ev2, ex2) = statusCheck g podName ann ex1
      in (ev1 @ ev2, ex2))"

text \<open>
  Setting up the redirect (lines 221-233): the events and the error returned from
  \<^verbatim>\<open>cmdAdd\<close> here, \<open>None\<close> when control goes on. The result of the override
  \<^verbatim>\<open>setupRedirect\<close> is assigned to \<^verbatim>\<open>_\<close> (line 228).
\<close>

definition redirectSetup :: "collaborators \<Rightarrow> globals \<Rightarrow> CmdArgs \<Rightarrow> PodInfo \<Rightarrow> bool \<Rightarrow> event list \<times> error option" where
  "redirectSetup x g args info excludePod =
     (if \<not> excludePod then
        (case NewRedirect x (proxyUID info) (proxyGID info) (ports info) (annotations info) of
           Inl err \<Rightarrow>
             ([LogSettingUpRedirect,
               CallNewRedirect (proxyUID info) (proxyGID info) (ports info),
               LogRedirectFailedBadParams err], Some err)
         | Inr redirect \<Rightarrow>
             (case setupRedirect g of
                Some override \<Rightarrow>
                  (let discarded = override (Netns args) (ports info)
                   in ([LogSettingUpRedirect,
                        CallNewRedirect (proxyUID info) (proxyGID info) (ports info),
                        CallSetupRedirect (Netns args) (ports info)], None))
              | None \<Rightarrow>
                  ([LogSettingUpRedirect,
                    CallNewRedirect (proxyUID info) (proxyGID info) (ports info),
                    CallDoRedirect (Netns args)],
                   doRedirect x g redirect (Netns args))))
      else ([], None))"

text \<open>The pod found (lines 197-234).\<close>

definition podFound :: "collaborators \<Rightarrow> globals \<Rightarrow> CmdArgs \<Rightarrow> string \<Rightarrow> PodInfo \<Rightarrow> event list \<times> error option" where
  "podFound x g args podName info =
     (if hasProxy info \<and> length (containers info) > 1 then
        (let (ev1, excludePod) = annotationChecks g podName (annotations info) False;
             (ev2, ret) = redirectSetup x g args info excludePod
         in ([LogFoundContainers (containers info), LogCheckingAnnotations] @ ev1 @ ev2, ret))
      else ([LogFoundContainers (containers info)], None))"

text \<open>The Kubernetes branch (lines 178-240).\<close>

definition kubernetesBranch :: "collaborators \<Rightarrow> globals \<Rightarrow> PluginConf \<Rightarrow> CmdArgs \<Rightarrow> string \<Rightarrow> string \<Rightarrow> event list \<times> error option" where
  "kubernetesBranch x g conf args podName podNamespace =
     (if podNamespace \<noteq> '''' \<and> podName \<noteq> '''' then
        (if \<not> excludedNamespace podNamespace (ExcludeNamespaces (Kubernetes conf)) then
           (case newKubeClient x conf of
              Inl err \<Rightarrow> ([CallNewKubeClient], Some err)
            | Inr client \<Rightarrow>
                (case getKubePodInfo x client podName podNamespace of
                   Inl err \<Rightarrow>
                     ([CallNewKubeClient, LogCreatedClient client,
                       CallGetKubePodInfo podName podNamespace,
                       LogErrorGettingPodData err], Some err)
                 | Inr info \<Rightarrow>
                     (let (ev, ret) = podFound x g args podName info
                      in ([CallNewKubeClient, LogCreatedClient client,
                           CallGetKubePodInfo podName podNamespace] @ ev, ret))))
         else ([LogPodExcluded], None))
      else ([LogNoKubernetesData], None))"

text \<open>The result passed on to the next plugin (lines 242-250).\<close>

definition passThrough :: "collaborators \<Rightarrow> PluginConf \<Rightarrow> Result" where
  "passThrough x conf =
     (case PrevResult conf of
        None \<Rightarrow> \<lparr>ResultCNIVersion = ImplementedSpecVersion x, ResultPayload = ''''\<rparr>
      | Some prev \<Rightarrow> prev)"

text \<open>
  \<^verbatim>\<open>cmdAdd\<close> (lines 134-252): the package-level variables after the call, the
  events of the call, and the error returned.
\<close>

definition cmdAdd :: "collaborators \<Rightarrow> globals \<Rightarrow> CmdArgs \<Rightarrow> globals \<times> event list \<times> error option" where
  "cmdAdd x g args =
     (case parseConfig x (StdinData args) of
        Inl err \<Rightarrow> (g, [LogCmdAddParsingConfig], Some err)
      | Inr conf \<Rightarrow>
          (let ev0 = [LogCmdAddParsingConfig] @ ConfigureLogging (LogLevel conf)
                       @ [LogConfigParsed (CNIVersion conf) (PrevResult conf)]
           in case types_LoadArgs x (Args args) of
                Inl err \<Rightarrow> (g, ev0, Some err)
              | Inr k8sArgs \<Rightarrow>
                  (let ev1 = ev0 @ [LogGettingIdentifiers (Args args), LogLoadedK8sArgs k8sArgs];
                       g' = setBinaries g conf;
                       podName = K8S_POD_NAME k8sArgs;
                       podNamespace = K8S_POD_NAMESPACE k8sArgs;
                       (ev2, ret) = kubernetesBranch x g' conf args podName podNamespace
                   in case ret of
                        Some err \<Rightarrow> (g', ev1 @ ev2, Some err)
                      | None \<Rightarrow>
                          (g', ev1 @ ev2 @ [CallPrintResult (passThrough x conf) (CNIVersion conf)],
                           types_PrintResult x (passThrough x conf) (CNIVersion conf)))))"

definition globalsAfter :: "globals \<times> event list \<times> error option \<Rightarrow> globals" where
  "globalsAfter r = fst r"

definition eventsOf :: "globals \<times> event list \<times> error option \<Rightarrow> event list" where
  "eventsOf r = fst (snd r)"

definition returned :: "globals \<times> event list \<times> error option \<Rightarrow> error option" where
  "returned r = snd (snd r)"

section \<open>Observations on the events of an invocation\<close>

text \<open>The executor is the override \<^verbatim>\<open>setupRedirect\<close> or \<^verbatim>\<open>doRedirect\<close>.\<close>

fun isExecutorCall :: "event \<Rightarrow> bool" where
  "isExecutorCall (CallSetupRedirect netns ps) = True"
| "isExecutorCall (CallDoRedirect netns) = True"
| "isExecutorCall e = False"

fun isNewRedirectCall :: "event \<Rightarrow> bool" where
  "isNewRedirectCall (CallNewRedirect uid gid ps) = True"
| "isNewRedirectCall e = False"

fun isMetadataQuery :: "event \<Rightarrow> bool" where
  "isMetadataQuery CallNewKubeClient = True"
| "isMetadataQuery (CallGetKubePodInfo name ns) = True"
| "isMetadataQuery e = False"

fun isPrintResult :: "event \<Rightarrow> bool" where
  "isPrintResult (CallPrintResult r v) = True"
| "isPrintResult e = False"

text \<open>The events of the annotation checks (lines 199-220).\<close>

fun isAnnotationEvent :: "event \<Rightarrow> bool" where
  "isAnnotationEvent LogCheckingAnnotations = True"
| "isAnnotationEvent (LogContainsInjectAnnotation p v) = True"
| "isAnnotationEvent LogExcludedInjectDisabled = True"
| "isAnnotationEvent (LogExcludedNoSidecarAnnotation p) = True"
| "isAnnotationEvent e = False"

definition executorCalls :: "event list \<Rightarrow> nat" where
  "executorCalls evs = length (filter isExecutorCall evs)"

definition newRedirectCalls :: "event list \<Rightarrow> nat" where
  "newRedirectCalls evs = length (filter isNewRedirectCall evs)"

definition metadataQueries :: "event list \<Rightarrow> nat" where
  "metadataQueries evs = length (filter isMetadataQuery evs)"

definition printResultCalls :: "event list \<Rightarrow> nat" where
  "printResultCalls evs = length (filter isPrintResult evs)"

definition annotationEvents :: "event list \<Rightarrow> event list" where
  "annotationEvents evs = filter isAnnotationEvent evs"

section \<open>The components as the specification words them\<close>

text \<open>The Decision of the specification (section 3).\<close>

datatype Decision =
    Allow
  | ExcludedByNamespace
  | ExcludedNoPod
  | ExcludedNoProxyOrSingleContainer
  | ExcludedByInjectAnnotation
  | ExcludedMissingSidecarStatus

text \<open>
  The EligibilityEvaluator as section 4.2 of the specification words it, an ordered
  list of rules of which the first that matches wins. \<^verbatim>\<open>main.go\<close> has no such
  function: the code it is compared with is \<open>podFound\<close>.
\<close>

definition injectParsesFalse :: "globals \<Rightarrow> (string \<rightharpoonup> string) \<Rightarrow> bool" where
  "injectParsesFalse g ann =
     (case ann (injectAnnotationKey g) of
        None \<Rightarrow> False
      | Some val \<Rightarrow> ParseBool val = Some False)"

definition EligibilityEvaluator :: "globals \<Rightarrow> PodInfo \<Rightarrow> Decision" where
  "EligibilityEvaluator g ctx =
     (if \<not> hasProxy ctx \<or> \<not> 1 < length (containers ctx) then ExcludedNoProxyOrSingleContainer
      else if injectParsesFalse g (annotations ctx) then ExcludedByInjectAnnotation
      else if annotations ctx (sidecarStatusKey g) = None then ExcludedMissingSidecarStatus
      else Allow)"

text \<open>
  Modelled from the spec: \<^verbatim>\<open>NewRedirect\<close> is defined in a file of the repository
  that is not among the sources. Section 4.3 of the specification: the ports must be
  non-empty, the proxy identities non-negative, and the fields are copied in order.
\<close>

definition RedirectSpecBuilder :: "int \<Rightarrow> int \<Rightarrow> string list \<Rightarrow> (string \<rightharpoonup> string) \<Rightarrow> error + RedirectSpec" where
  "RedirectSpecBuilder uid gid ps ann =
     (if ps = [] then Inl InvalidRedirectParameters
      else if uid < 0 \<or> gid < 0 then Inl InvalidRedirectParameters
      else Inr \<lparr>specProxyUID = uid, specProxyGID = gid, specPorts = ps, specAnnotations = ann\<rparr>)"

section \<open>Concrete invocations\<close>

text \<open>
  A configuration, arguments and collaborators to run \<open>cmdAdd\<close> on: the pod of the
  end-to-end example of the specification (section 8), in namespace \<^verbatim>\<open>default\<close>,
  with \<^verbatim>\<open>kube-system\<close> excluded.
\<close>

definition demoConf :: "string \<Rightarrow> PluginConf" where
  "demoConf binDir =
     \<lparr>CNIVersion = ''0.3.1'', RawPrevResult = None, PrevResult = None, LogLevel = ''info'',
      Kubernetes = \<lparr>K8sAPIRoot = '''', Kubeconfig = ''/etc/cni/net.d/kubeconfig'',
                    NodeName = ''node-1'', ExcludeNamespaces = [''kube-system''],
                    CniBinDir = binDir, IptablesScript = ''''\<rparr>\<rparr>"

definition demoK8sArgs :: "string \<Rightarrow> K8sArgs" where
  "demoK8sArgs ns =
     \<lparr>IP = '''', K8S_POD_NAME = ''app-1'', K8S_POD_NAMESPACE = ns,
      K8S_POD_INFRA_CONTAINER_ID = ''c1''\<rparr>"

definition demoArgs :: CmdArgs where
  "demoArgs =
     \<lparr>ContainerID = ''c1'', Netns = ''/proc/42/ns/net'', IfName = ''eth0'',
      Args = ''K8S_POD_NAMESPACE=default;K8S_POD_NAME=app-1'', Path = ''/opt/cni/bin'',
      StdinData = ''{}''\<rparr>"

definition demoPod :: "string list \<Rightarrow> (string \<rightharpoonup> string) \<Rightarrow> string list \<Rightarrow> PodInfo" where
  "demoPod cs ann ps =
     \<lparr>hasProxy = True, containers = cs, annotations = ann, ports = ps,
      proxyUID = 1337, proxyGID = 1337\<rparr>"

definition demoCollaborators :: "PluginConf \<Rightarrow> K8sArgs \<Rightarrow> PodInfo \<Rightarrow> error option \<Rightarrow> collaborators" where
  "demoCollaborators conf k8sArgs info redirected =
     \<lparr>json_Unmarshal = (\<lambda>stdin. Inr conf),
      json_Marshal = (\<lambda>raw. Inr raw),
      version_NewResult = (\<lambda>v bytes. Inr bytes),
      current_NewResultFromResult = (\<lambda>res. Inr \<lparr>ResultCNIVersion = ''0.3.1'', ResultPayload = res\<rparr>),
      ImplementedSpecVersion = ''0.3.1'',
      types_LoadArgs = (\<lambda>a. Inr k8sArgs),
      types_PrintResult = (\<lambda>r v. None),
      newKubeClient = (\<lambda>c. Inr 0),
      getKubePodInfo = (\<lambda>client name ns. Inr info),
      NewRedirect = RedirectSpecBuilder,
      doRedirect = (\<lambda>g redirect netns. redirected)\<rparr>"

definition statusOnly :: "string \<rightharpoonup> string" where
  "statusOnly = [''sidecar.istio.io/status'' \<mapsto> ''{}'']"

definition injectAndStatus :: "string \<Rightarrow> (string \<rightharpoonup> string)" where
  "injectAndStatus val = [''sidecar.istio.io/status'' \<mapsto> ''{}'', ''sidecar.istio.io/inject'' \<mapsto> val]"

definition injectOnly :: "string \<Rightarrow> (string \<rightharpoonup> string)" where
  "injectOnly val = [''sidecar.istio.io/inject'' \<mapsto> val]"

text \<open>An override executor that reports a failure.\<close>

definition failingOverride :: "string \<Rightarrow> string list \<Rightarrow> error option" where
  "failingOverride netns ps = Some (Err ''redirect failed'')"

definition meshPod :: PodInfo where
  "meshPod = demoPod [''app'', ''istio-proxy''] statusOnly [''9080'']"

definition demoRun :: "string \<Rightarrow> PodInfo \<Rightarrow> error option \<Rightarrow> globals \<Rightarrow> globals \<times> event list \<times> error option" where
  "demoRun ns info redirected g =
     cmdAdd (demoCollaborators (demoConf '''') (demoK8sArgs ns) info redirected) g demoArgs"

text \<open>
  \<^verbatim>\<open>types.PrintResult\<close> on a result with no IP address: the conversion of the result
  to the versions 0.1.0 and 0.2.0 of the CNI specification fails. \<open>legacyRun\<close> is
  the invocation of the example under a configuration of version 0.2.0.
\<close>

definition printWithoutAddress :: "Result \<Rightarrow> string \<Rightarrow> error option" where
  "printWithoutAddress r v =
     (if v \<in> set [''0.1.0'', ''0.2.0'']
      then Some (Err ''cannot convert: no valid IP addresses'') else None)"

definition legacyConf :: PluginConf where
  "legacyConf = (demoConf '''')\<lparr>CNIVersion := ''0.2.0''\<rparr>"

definition legacyCollaborators :: "string \<Rightarrow> collaborators" where
  "legacyCollaborators ns =
     (demoCollaborators legacyConf (demoK8sArgs ns) meshPod None)
       \<lparr>types_PrintResult := printWithoutAddress\<rparr>"

definition legacyRun :: "string \<Rightarrow> globals \<times> event list \<times> error option" where
  "legacyRun ns = cmdAdd (legacyCollaborators ns) initGlobals demoArgs"

section \<open>The path of an ADD to the pod's metadata\<close>

text \<open>
  The events of \<open>cmdAdd\<close> before the Kubernetes branch (lines 135-160), once the
  configuration is parsed and the CNI arguments are loaded.
\<close>

definition preludeEvents :: "PluginConf \<Rightarrow> CmdArgs \<Rightarrow> K8sArgs \<Rightarrow> event list" where
  "preludeEvents conf args k =
     [LogCmdAddParsingConfig] @ ConfigureLogging (LogLevel conf)
       @ [LogConfigParsed (CNIVersion conf) (PrevResult conf),
          LogGettingIdentifiers (Args args), LogLoadedK8sArgs k]"

text \<open>
  The invocation obtains the metadata \<open>info\<close> of its pod: the configuration parses
  to \<open>conf\<close>, the arguments load to \<open>k\<close>, the pod's name and namespace are not
  empty, the namespace is not excluded, the client is created and the query succeeds.
\<close>

definition podQueried :: "collaborators \<Rightarrow> CmdArgs \<Rightarrow> PluginConf \<Rightarrow> K8sArgs \<Rightarrow> nat \<Rightarrow> PodInfo \<Rightarrow> bool" where
  "podQueried x args conf k client info =
     (parseConfig x (StdinData args) = Inr conf
      \<and> types_LoadArgs x (Args args) = Inr k
      \<and> K8S_POD_NAMESPACE k \<noteq> '''' \<and> K8S_POD_NAME k \<noteq> ''''
      \<and> K8S_POD_NAMESPACE k \<notin> set (ExcludeNamespaces (Kubernetes conf))
      \<and> newKubeClient x conf = Inr client
      \<and> getKubePodInfo x client (K8S_POD_NAME k) (K8S_POD_NAMESPACE k) = Inr info)"

section \<open>Auxiliary facts\<close>

lemma setBinaries_keeps [simp]:
  "injectAnnotationKey (setBinaries g conf) = injectAnnotationKey g"
  "sidecarStatusKey (setBinaries g conf) = sidecarStatusKey g"
  "setupRedirect (setBinaries g conf) = setupRedirect g"
  by (simp_all add: setBinaries_def Let_def)

lemma excludedNamespace_iff: "excludedNamespace ns es = (ns \<in> set es)"
  by (induction es) auto

lemma prelude_counts [simp]:
  "executorCalls (preludeEvents conf args k) = 0"
  "newRedirectCalls (preludeEvents conf args k) = 0"
  "metadataQueries (preludeEvents conf args k) = 0"
  "printResultCalls (preludeEvents conf args k) = 0"
  "annotationEvents (preludeEvents conf args k) = []"
  by (simp_all add: preludeEvents_def ConfigureLogging_def executorCalls_def newRedirectCalls_def
      metadataQueries_def printResultCalls_def annotationEvents_def)

lemma prelude_mem [simp]:
  "LogExcludedInjectDisabled \<notin> set (preludeEvents conf args k)"
  "LogExcludedNoSidecarAnnotation p \<notin> set (preludeEvents conf args k)"
  by (simp_all add: preludeEvents_def ConfigureLogging_def)

lemma counts_append [simp]:
  "executorCalls (a @ b) = executorCalls a + executorCalls b"
  "newRedirectCalls (a @ b) = newRedirectCalls a + newRedirectCalls b"
  "metadataQueries (a @ b) = metadataQueries a + metadataQueries b"
  "printResultCalls (a @ b) = printResultCalls a + printResultCalls b"
  "annotationEvents (a @ b) = annotationEvents a @ annotationEvents b"
  by (simp_all add: executorCalls_def newRedirectCalls_def
      metadataQueries_def printResultCalls_def annotationEvents_def)

lemma counts_Cons [simp]:
  "executorCalls (e # b) = (if isExecutorCall e then 1 else 0) + executorCalls b"
  "newRedirectCalls (e # b) = (if isNewRedirectCall e then 1 else 0) + newRedirectCalls b"
  "metadataQueries (e # b) = (if isMetadataQuery e then 1 else 0) + metadataQueries b"
  "printResultCalls (e # b) = (if isPrintResult e then 1 else 0) + printResultCalls b"
  "annotationEvents (e # b) = (if isAnnotationEvent e then [e] else []) @ annotationEvents b"
  "executorCalls [] = 0" "newRedirectCalls [] = 0" "metadataQueries [] = 0"
  "printResultCalls [] = 0" "annotationEvents [] = []"
  by (simp_all add: executorCalls_def newRedirectCalls_def
      metadataQueries_def printResultCalls_def annotationEvents_def)

lemma cmdAdd_found:
  assumes "podQueried x args conf k client info"
  shows "cmdAdd x g args =
     (setBinaries g conf,
      preludeEvents conf args k
        @ [CallNewKubeClient, LogCreatedClient client,
           CallGetKubePodInfo (K8S_POD_NAME k) (K8S_POD_NAMESPACE k)]
        @ fst (podFound x (setBinaries g conf) args (K8S_POD_NAME k) info)
        @ (case snd (podFound x (setBinaries g conf) args (K8S_POD_NAME k) info) of
             None \<Rightarrow> [CallPrintResult (passThrough x conf) (CNIVersion conf)]
           | Some err \<Rightarrow> []),
      case snd (podFound x (setBinaries g conf) args (K8S_POD_NAME k) info) of
        None \<Rightarrow> types_PrintResult x (passThrough x conf) (CNIVersion conf)
      | Some err \<Rightarrow> Some err)"
  using assms
  by (simp add: podQueried_def cmdAdd_def kubernetesBranch_def preludeEvents_def
      excludedNamespace_iff Let_def split: prod.splits option.splits)

lemma cmdAdd_gated:
  assumes "parseConfig x (StdinData args) = Inr conf"
    and "types_LoadArgs x (Args args) = Inr k"
    and "K8S_POD_NAMESPACE k = '''' \<or> K8S_POD_NAME k = ''''
           \<or> K8S_POD_NAMESPACE k \<in> set (ExcludeNamespaces (Kubernetes conf))"
  shows "cmdAdd x g args =
     (setBinaries g conf,
      preludeEvents conf args k
        @ [if K8S_POD_NAMESPACE k \<noteq> '''' \<and> K8S_POD_NAME k \<noteq> '''' then LogPodExcluded
           else LogNoKubernetesData,
           CallPrintResult (passThrough x conf) (CNIVersion conf)],
      types_PrintResult x (passThrough x conf) (CNIVersion conf))"
  using assms
  by (auto simp add: cmdAdd_def kubernetesBranch_def preludeEvents_def
      excludedNamespace_iff Let_def split: prod.splits option.splits)

lemma annotationChecks_excludes:
  "snd (annotationChecks g p ann False) = (injectParsesFalse g ann \<or> ann (sidecarStatusKey g) = None)"
  by (auto simp add: annotationChecks_def injectCheck_def statusCheck_def injectParsesFalse_def
      split: option.splits prod.splits)

lemma annotationChecks_events:
  "fst (annotationChecks g p ann False) =
     (case ann (injectAnnotationKey g) of
        None \<Rightarrow> []
      | Some val \<Rightarrow> LogContainsInjectAnnotation p val
                    # (if ParseBool val = Some False then [LogExcludedInjectDisabled] else []))
     @ (if ann (sidecarStatusKey g) = None then [LogExcludedNoSidecarAnnotation p] else [])"
  by (auto simp add: annotationChecks_def injectCheck_def statusCheck_def
      split: option.splits prod.splits)

lemma podFound_unfold:
  "podFound x g args p info =
     (if hasProxy info \<and> 1 < length (containers info) then
        ([LogFoundContainers (containers info), LogCheckingAnnotations]
           @ fst (annotationChecks g p (annotations info) False)
           @ fst (redirectSetup x g args info (snd (annotationChecks g p (annotations info) False))),
         snd (redirectSetup x g args info (snd (annotationChecks g p (annotations info) False))))
      else ([LogFoundContainers (containers info)], None))"
  by (simp add: podFound_def split: prod.splits)

lemma redirectSetup_excluded [simp]: "redirectSetup x g args info True = ([], None)"
  by (simp add: redirectSetup_def)

lemma Allow_iff:
  "(EligibilityEvaluator g info = Allow) =
     (hasProxy info \<and> 1 < length (containers info)
      \<and> \<not> snd (annotationChecks g p (annotations info) False))"
  by (auto simp add: EligibilityEvaluator_def annotationChecks_excludes)

lemma annotationChecks_counts [simp]:
  "executorCalls (fst (annotationChecks g p ann False)) = 0"
  "newRedirectCalls (fst (annotationChecks g p ann False)) = 0"
  "printResultCalls (fst (annotationChecks g p ann False)) = 0"
  by (simp_all add: annotationChecks_events split: option.splits)

lemma podFound_excluded:
  assumes "EligibilityEvaluator g info \<noteq> Allow"
  shows "snd (podFound x g args p info) = None"
    and "executorCalls (fst (podFound x g args p info)) = 0"
    and "newRedirectCalls (fst (podFound x g args p info)) = 0"
  using assms by (simp_all add: podFound_unfold Allow_iff [of g info p])

lemma podFound_allowed:
  assumes "EligibilityEvaluator g info = Allow"
  shows "podFound x g args p info =
     ([LogFoundContainers (containers info), LogCheckingAnnotations]
        @ fst (annotationChecks g p (annotations info) False)
        @ fst (redirectSetup x g args info False),
      snd (redirectSetup x g args info False))"
  using assms by (simp add: podFound_unfold Allow_iff [of g info p])

lemma redirectSetup_allowed:
  "redirectSetup x g args info False =
     (case NewRedirect x (proxyUID info) (proxyGID info) (ports info) (annotations info) of
        Inl err \<Rightarrow>
          ([LogSettingUpRedirect, CallNewRedirect (proxyUID info) (proxyGID info) (ports info),
            LogRedirectFailedBadParams err], Some err)
      | Inr redirect \<Rightarrow>
          ([LogSettingUpRedirect, CallNewRedirect (proxyUID info) (proxyGID info) (ports info),
            (case setupRedirect g of
               Some override \<Rightarrow> CallSetupRedirect (Netns args) (ports info)
             | None \<Rightarrow> CallDoRedirect (Netns args))],
           (case setupRedirect g of
              Some override \<Rightarrow> None
            | None \<Rightarrow> doRedirect x g redirect (Netns args))))"
  by (simp add: redirectSetup_def Let_def split: sum.splits option.splits)

lemma EligibilityEvaluator_setBinaries [simp]:
  "EligibilityEvaluator (setBinaries g conf) info = EligibilityEvaluator g info"
  by (simp add: EligibilityEvaluator_def injectParsesFalse_def)

lemmas demo_defs =
  demoRun_def demoCollaborators_def demoConf_def demoK8sArgs_def demoArgs_def demoPod_def
  meshPod_def statusOnly_def initGlobals_def RedirectSpecBuilder_def parseConfig_def

lemmas run_defs =
  cmdAdd_def kubernetesBranch_def podFound_def annotationChecks_def injectCheck_def
  statusCheck_def redirectSetup_def setBinaries_def passThrough_def ConfigureLogging_def
  ParseBool_def Let_def eventsOf_def returned_def

lemma demo_podQueried:
  "podQueried (demoCollaborators (demoConf b) (demoK8sArgs ''default'') info r) demoArgs
     (demoConf b) (demoK8sArgs ''default'') 0 info"
  by (simp add: podQueried_def demoCollaborators_def parseConfig_def demoConf_def demoK8sArgs_def)

lemma redirectSetup_no_exclusion_logged [simp]:
  "LogExcludedInjectDisabled \<notin> set (fst (redirectSetup x g args info b))"
  by (cases b) (simp_all add: redirectSetup_allowed split: sum.splits option.splits)

lemma redirectSetup_newRedirectCalls [simp]:
  "newRedirectCalls (fst (redirectSetup x g args info b)) = (if b then 0 else 1)"
  by (cases b) (simp_all add: redirectSetup_allowed split: sum.splits option.splits)

text \<open>
  The code and the evaluator of the specification agree on whether the redirect is set
  up: \<open>podFound\<close> calls \<^verbatim>\<open>NewRedirect\<close>, once, exactly for the pods the evaluator
  allows.
\<close>

lemma podFound_sets_up_iff_Allow:
  "newRedirectCalls (fst (podFound x g args p info))
     = (if EligibilityEvaluator g info = Allow then 1 else 0)"
  by (simp add: podFound_unfold Allow_iff [of g info p])

section \<open>The claims\<close>

subsection \<open>C1: an allowed pod\<close>

text \<open>
  Claim C1 says that a pod with at least two containers, a proxy, the inject annotation
  absent or \<^verbatim>\<open>"true"\<close> and the sidecar status annotation present is allowed, and that
  on that path a RedirectSpec is built and the executor is invoked exactly once. The pod
  of the end-to-end example with no declared port meets every condition; the builder of
  the specification rejects its empty port list, so no RedirectSpec is built, the
  executor is not invoked, and the ADD returns the construction error (lines 223-225).
\<close>

theorem allowed_pod_without_ports_counterexample:
  "podQueried (demoCollaborators (demoConf '''') (demoK8sArgs ''default'')
       (demoPod [''app'', ''istio-proxy''] statusOnly []) None) demoArgs
     (demoConf '''') (demoK8sArgs ''default'') 0 (demoPod [''app'', ''istio-proxy''] statusOnly [])
   \<and> hasProxy (demoPod [''app'', ''istio-proxy''] statusOnly [])
   \<and> 2 \<le> length (containers (demoPod [''app'', ''istio-proxy''] statusOnly []))
   \<and> annotations (demoPod [''app'', ''istio-proxy''] statusOnly []) (injectAnnotationKey initGlobals) = None
   \<and> annotations (demoPod [''app'', ''istio-proxy''] statusOnly []) (sidecarStatusKey initGlobals) \<noteq> None
   \<and> executorCalls (eventsOf (demoRun ''default'' (demoPod [''app'', ''istio-proxy''] statusOnly []) None initGlobals)) = 0
   \<and> returned (demoRun ''default'' (demoPod [''app'', ''istio-proxy''] statusOnly []) None initGlobals)
       = Some InvalidRedirectParameters"
  by (simp add: run_defs demo_defs podQueried_def)

text \<open>
  Claim C1, amended: for every such pod the evaluator of the specification returns
  \<open>Allow\<close>, and on that path of \<open>cmdAdd\<close> the construction of a RedirectSpec is
  attempted exactly once; when it succeeds the executor is invoked exactly once, and
  when it fails the executor is not invoked and the ADD returns the construction error.
\<close>

theorem allowed_pod_builds_spec_and_executes_once:
  assumes "podQueried x args conf k client info"
    and "hasProxy info" and "2 \<le> length (containers info)"
    and "annotations info (injectAnnotationKey g) = None
           \<or> annotations info (injectAnnotationKey g) = Some ''true''"
    and "annotations info (sidecarStatusKey g) \<noteq> None"
  shows "EligibilityEvaluator g info = Allow
       \<and> newRedirectCalls (eventsOf (cmdAdd x g args)) = 1
       \<and> (case NewRedirect x (proxyUID info) (proxyGID info) (ports info) (annotations info) of
            Inr redirect \<Rightarrow> executorCalls (eventsOf (cmdAdd x g args)) = 1
          | Inl err \<Rightarrow> executorCalls (eventsOf (cmdAdd x g args)) = 0
                       \<and> returned (cmdAdd x g args) = Some err)"
proof -
  have allow: "EligibilityEvaluator g info = Allow"
    using assms(2-5)
    by (auto simp add: EligibilityEvaluator_def injectParsesFalse_def ParseBool_def)
  then have pf: "podFound x (setBinaries g conf) args (K8S_POD_NAME k) info =
     ([LogFoundContainers (containers info), LogCheckingAnnotations]
        @ fst (annotationChecks (setBinaries g conf) (K8S_POD_NAME k) (annotations info) False)
        @ fst (redirectSetup x (setBinaries g conf) args info False),
      snd (redirectSetup x (setBinaries g conf) args info False))"
    by (simp add: podFound_allowed)
  show ?thesis
    using allow
    by (simp add: cmdAdd_found [OF assms(1)] pf eventsOf_def returned_def redirectSetup_allowed
        split: sum.splits option.splits)
qed

text \<open>
  The end-to-end example of the specification: containers \<^verbatim>\<open>app\<close> and
  \<^verbatim>\<open>istio-proxy\<close>, the status annotation, port 9080, identity 1337.
\<close>

theorem allowed_pod_builds_spec_and_executes_once_witness:
  "EligibilityEvaluator initGlobals meshPod = Allow
   \<and> newRedirectCalls (eventsOf (demoRun ''default'' meshPod None initGlobals)) = 1
   \<and> executorCalls (eventsOf (demoRun ''default'' meshPod None initGlobals)) = 1"
proof -
  have q: "podQueried (demoCollaborators (demoConf '''') (demoK8sArgs ''default'') meshPod None)
     demoArgs (demoConf '''') (demoK8sArgs ''default'') 0 meshPod"
    by (rule demo_podQueried)
  have h: "hasProxy meshPod" "2 \<le> length (containers meshPod)"
    "annotations meshPod (injectAnnotationKey initGlobals) = None
       \<or> annotations meshPod (injectAnnotationKey initGlobals) = Some ''true''"
    "annotations meshPod (sidecarStatusKey initGlobals) \<noteq> None"
    by (simp_all add: demo_defs)
  from allowed_pod_builds_spec_and_executes_once [OF q h] show ?thesis
    by (simp add: demo_defs)
qed

subsection \<open>C2: no proxy, or a single container\<close>

text \<open>
  Claim C2: for every pod whose \<open>hasProxy\<close> is false or whose container count is not
  strictly greater than 1, the evaluator returns \<open>ExcludedNoProxyOrSingleContainer\<close>
  whatever the annotations are, and no redirect is attempted: \<open>cmdAdd\<close> does not
  look at the annotations (line 198), calls neither \<^verbatim>\<open>NewRedirect\<close> nor the executor,
  and returns what printing the result returns.
\<close>

theorem no_proxy_or_single_container_excluded:
  assumes "podQueried x args conf k client info"
    and "\<not> hasProxy info \<or> \<not> 1 < length (containers info)"
  shows "EligibilityEvaluator g info = ExcludedNoProxyOrSingleContainer
       \<and> annotationEvents (eventsOf (cmdAdd x g args)) = []
       \<and> newRedirectCalls (eventsOf (cmdAdd x g args)) = 0
       \<and> executorCalls (eventsOf (cmdAdd x g args)) = 0
       \<and> returned (cmdAdd x g args) = types_PrintResult x (passThrough x conf) (CNIVersion conf)"
proof -
  have pf: "podFound x (setBinaries g conf) args (K8S_POD_NAME k) info
              = ([LogFoundContainers (containers info)], None)"
    using assms(2) by (auto simp add: podFound_unfold)
  show ?thesis
    using assms(2)
    by (auto simp add: cmdAdd_found [OF assms(1)] pf eventsOf_def returned_def
        EligibilityEvaluator_def)
qed

text \<open>A pod of the proxy container alone, with both annotations in favour of a redirect.\<close>

theorem no_proxy_or_single_container_excluded_witness:
  "EligibilityEvaluator initGlobals (demoPod [''istio-proxy''] (injectAndStatus ''true'') [''9080''])
     = ExcludedNoProxyOrSingleContainer
   \<and> annotationEvents (eventsOf (demoRun ''default''
         (demoPod [''istio-proxy''] (injectAndStatus ''true'') [''9080'']) None initGlobals)) = []
   \<and> newRedirectCalls (eventsOf (demoRun ''default''
         (demoPod [''istio-proxy''] (injectAndStatus ''true'') [''9080'']) None initGlobals)) = 0
   \<and> executorCalls (eventsOf (demoRun ''default''
         (demoPod [''istio-proxy''] (injectAndStatus ''true'') [''9080'']) None initGlobals)) = 0
   \<and> returned (demoRun ''default''
         (demoPod [''istio-proxy''] (injectAndStatus ''true'') [''9080'']) None initGlobals) = None"
proof -
  have q: "podQueried (demoCollaborators (demoConf '''') (demoK8sArgs ''default'')
        (demoPod [''istio-proxy''] (injectAndStatus ''true'') [''9080'']) None)
     demoArgs (demoConf '''') (demoK8sArgs ''default'') 0
     (demoPod [''istio-proxy''] (injectAndStatus ''true'') [''9080''])"
    by (rule demo_podQueried)
  have h: "\<not> hasProxy (demoPod [''istio-proxy''] (injectAndStatus ''true'') [''9080''])
     \<or> \<not> 1 < length (containers (demoPod [''istio-proxy''] (injectAndStatus ''true'') [''9080'']))"
    by (simp add: demoPod_def)
  from no_proxy_or_single_container_excluded [OF q h, of initGlobals] show ?thesis
    by (simp add: demoRun_def demoCollaborators_def)
qed

subsection \<open>C3: the order of the rules\<close>

text \<open>
  Claim C3 says that the first rule that matches wins and that later rules are not
  evaluated, so that a pod whose inject annotation parses as false is excluded by the
  inject annotation and not for its missing sidecar status. In \<open>cmdAdd\<close> the status
  check (line 217) is a second \<^verbatim>\<open>if\<close>, not an \<^verbatim>\<open>else\<close>: for a pod with the inject
  annotation \<^verbatim>\<open>"false"\<close> and no status annotation both checks fire, and both
  exclusions are logged.
\<close>

theorem inject_false_status_absent_counterexample:
  "hasProxy (demoPod [''app'', ''istio-proxy''] (injectOnly ''false'') [''9080''])
   \<and> 2 \<le> length (containers (demoPod [''app'', ''istio-proxy''] (injectOnly ''false'') [''9080'']))
   \<and> annotations (demoPod [''app'', ''istio-proxy''] (injectOnly ''false'') [''9080''])
        (injectAnnotationKey initGlobals) = Some ''false''
   \<and> ParseBool ''false'' = Some False
   \<and> annotations (demoPod [''app'', ''istio-proxy''] (injectOnly ''false'') [''9080''])
        (sidecarStatusKey initGlobals) = None
   \<and> annotationEvents (eventsOf (demoRun ''default''
        (demoPod [''app'', ''istio-proxy''] (injectOnly ''false'') [''9080'']) None initGlobals))
      = [LogCheckingAnnotations, LogContainsInjectAnnotation ''app-1'' ''false'',
         LogExcludedInjectDisabled, LogExcludedNoSidecarAnnotation ''app-1'']"
  by (simp add: run_defs demo_defs injectOnly_def)

text \<open>
  Claim C3, amended: the rules are evaluated in order, and the first rule decides alone
  (C2), but the inject rule does not stop the evaluation of the status rule. For every
  pod with at least two containers and a proxy whose inject annotation parses as false,
  the evaluator of the specification returns \<open>ExcludedByInjectAnnotation\<close> and
  \<open>cmdAdd\<close> logs the inject exclusion, then still checks the sidecar status and logs
  the missing status as well exactly when the status key is absent; no redirect is
  attempted and the ADD returns what printing the result returns.
\<close>

theorem inject_false_excludes_and_status_still_checked:
  assumes "podQueried x args conf k client info"
    and "hasProxy info" and "2 \<le> length (containers info)"
    and "annotations info (injectAnnotationKey g) = Some val"
    and "ParseBool val = Some False"
  shows "EligibilityEvaluator g info = ExcludedByInjectAnnotation
       \<and> annotationEvents (eventsOf (cmdAdd x g args))
           = [LogCheckingAnnotations, LogContainsInjectAnnotation (K8S_POD_NAME k) val,
              LogExcludedInjectDisabled]
             @ (if annotations info (sidecarStatusKey g) = None
                then [LogExcludedNoSidecarAnnotation (K8S_POD_NAME k)] else [])
       \<and> newRedirectCalls (eventsOf (cmdAdd x g args)) = 0
       \<and> executorCalls (eventsOf (cmdAdd x g args)) = 0
       \<and> returned (cmdAdd x g args) = types_PrintResult x (passThrough x conf) (CNIVersion conf)"
proof -
  have d: "EligibilityEvaluator g info = ExcludedByInjectAnnotation"
    using assms(2-5) by (simp add: EligibilityEvaluator_def injectParsesFalse_def)
  then have na: "EligibilityEvaluator (setBinaries g conf) info \<noteq> Allow"
    by simp
  have ex: "snd (annotationChecks (setBinaries g conf) (K8S_POD_NAME k) (annotations info) False)"
    using assms(4,5) by (simp add: annotationChecks_excludes injectParsesFalse_def)
  have ev: "annotationEvents (fst (podFound x (setBinaries g conf) args (K8S_POD_NAME k) info))
      = [LogCheckingAnnotations, LogContainsInjectAnnotation (K8S_POD_NAME k) val,
         LogExcludedInjectDisabled]
        @ (if annotations info (sidecarStatusKey g) = None
           then [LogExcludedNoSidecarAnnotation (K8S_POD_NAME k)] else [])"
    using assms(2-5) by (simp add: podFound_unfold ex annotationChecks_events)
  show ?thesis
    using d podFound_excluded [OF na, of x args "K8S_POD_NAME k"] ev
    by (simp add: cmdAdd_found [OF assms(1)] eventsOf_def returned_def)
qed

text \<open>The pod of the example with the inject annotation \<^verbatim>\<open>"false"\<close> and the status present.\<close>

theorem inject_false_excludes_and_status_still_checked_witness:
  "EligibilityEvaluator initGlobals (demoPod [''app'', ''istio-proxy''] (injectAndStatus ''false'') [''9080''])
     = ExcludedByInjectAnnotation
   \<and> annotationEvents (eventsOf (demoRun ''default''
        (demoPod [''app'', ''istio-proxy''] (injectAndStatus ''false'') [''9080'']) None initGlobals))
      = [LogCheckingAnnotations, LogContainsInjectAnnotation ''app-1'' ''false'',
         LogExcludedInjectDisabled]
   \<and> newRedirectCalls (eventsOf (demoRun ''default''
        (demoPod [''app'', ''istio-proxy''] (injectAndStatus ''false'') [''9080'']) None initGlobals)) = 0
   \<and> executorCalls (eventsOf (demoRun ''default''
        (demoPod [''app'', ''istio-proxy''] (injectAndStatus ''false'') [''9080'']) None initGlobals)) = 0
   \<and> returned (demoRun ''default''
        (demoPod [''app'', ''istio-proxy''] (injectAndStatus ''false'') [''9080'']) None initGlobals) = None"
proof -
  have q: "podQueried (demoCollaborators (demoConf '''') (demoK8sArgs ''default'')
        (demoPod [''app'', ''istio-proxy''] (injectAndStatus ''false'') [''9080'']) None)
     demoArgs (demoConf '''') (demoK8sArgs ''default'') 0
     (demoPod [''app'', ''istio-proxy''] (injectAndStatus ''false'') [''9080''])"
    by (rule demo_podQueried)
  have h: "hasProxy (demoPod [''app'', ''istio-proxy''] (injectAndStatus ''false'') [''9080''])"
    "2 \<le> length (containers (demoPod [''app'', ''istio-proxy''] (injectAndStatus ''false'') [''9080'']))"
    "annotations (demoPod [''app'', ''istio-proxy''] (injectAndStatus ''false'') [''9080''])
       (injectAnnotationKey initGlobals) = Some ''false''"
    "ParseBool ''false'' = Some False"
    by (simp_all add: demoPod_def injectAndStatus_def initGlobals_def ParseBool_def)
  from inject_false_excludes_and_status_still_checked [OF q h] show ?thesis
    by (simp add: demoRun_def demoCollaborators_def demoPod_def injectAndStatus_def
        initGlobals_def demoK8sArgs_def)
qed

subsection \<open>C4: an inject annotation that is no boolean\<close>

text \<open>
  Claim C4: for every pod with a proxy and at least two containers whose inject
  annotation is present with a value that does not parse as a boolean, the annotation
  does not trigger exclusion, whether the sidecar status is present or not: the inject
  check logs the annotation and leaves \<^verbatim>\<open>excludePod\<close> false, \<open>cmdAdd\<close> logs no
  inject exclusion, and the pod is allowed and the redirect set up exactly when the
  sidecar status is present. With the sidecar status present the decision is
  \<open>Allow\<close>.
\<close>

theorem unparsable_inject_is_ignored:
  assumes "podQueried x args conf k client info"
    and "hasProxy info" and "2 \<le> length (containers info)"
    and "annotations info (injectAnnotationKey g) = Some val"
    and "ParseBool val = None"
  shows "injectCheck (setBinaries g conf) (K8S_POD_NAME k) (annotations info) False
           = ([LogContainsInjectAnnotation (K8S_POD_NAME k) val], False)
       \<and> EligibilityEvaluator g info \<noteq> ExcludedByInjectAnnotation
       \<and> LogExcludedInjectDisabled \<notin> set (eventsOf (cmdAdd x g args))
       \<and> annotationEvents (eventsOf (cmdAdd x g args))
           = [LogCheckingAnnotations, LogContainsInjectAnnotation (K8S_POD_NAME k) val]
             @ (if annotations info (sidecarStatusKey g) = None
                then [LogExcludedNoSidecarAnnotation (K8S_POD_NAME k)] else [])
       \<and> (EligibilityEvaluator g info = Allow) = (annotations info (sidecarStatusKey g) \<noteq> None)
       \<and> newRedirectCalls (eventsOf (cmdAdd x g args))
           = (if annotations info (sidecarStatusKey g) \<noteq> None then 1 else 0)
       \<and> (annotations info (sidecarStatusKey g) \<noteq> None \<longrightarrow>
            EligibilityEvaluator g info = Allow
            \<and> annotationEvents (eventsOf (cmdAdd x g args))
                = [LogCheckingAnnotations, LogContainsInjectAnnotation (K8S_POD_NAME k) val]
            \<and> newRedirectCalls (eventsOf (cmdAdd x g args)) = 1)"
proof -
  have nf: "\<not> injectParsesFalse g (annotations info)"
    using assms(4,5) by (simp add: injectParsesFalse_def)
  have ic: "injectCheck (setBinaries g conf) (K8S_POD_NAME k) (annotations info) False
              = ([LogContainsInjectAnnotation (K8S_POD_NAME k) val], False)"
    using assms(4,5) by (simp add: injectCheck_def)
  have ex: "snd (annotationChecks (setBinaries g conf) (K8S_POD_NAME k) (annotations info) False)
              = (annotations info (sidecarStatusKey g) = None)"
    using nf by (simp add: annotationChecks_excludes injectParsesFalse_def)
  have ev: "fst (annotationChecks (setBinaries g conf) (K8S_POD_NAME k) (annotations info) False)
      = LogContainsInjectAnnotation (K8S_POD_NAME k) val
        # (if annotations info (sidecarStatusKey g) = None
           then [LogExcludedNoSidecarAnnotation (K8S_POD_NAME k)] else [])"
    using assms(4,5) by (simp add: annotationChecks_events)
  have d: "EligibilityEvaluator g info \<noteq> ExcludedByInjectAnnotation"
    using nf by (simp add: EligibilityEvaluator_def)
  have a: "(EligibilityEvaluator g info = Allow) = (annotations info (sidecarStatusKey g) \<noteq> None)"
    using nf assms(2,3) by (simp add: EligibilityEvaluator_def)
  have m: "LogExcludedInjectDisabled \<notin> set (eventsOf (cmdAdd x g args))"
    using assms(2,3)
    by (simp add: cmdAdd_found [OF assms(1)] eventsOf_def podFound_unfold ex ev
        split: option.splits)
  have n: "newRedirectCalls (eventsOf (cmdAdd x g args))
             = (if annotations info (sidecarStatusKey g) \<noteq> None then 1 else 0)"
    using assms(2,3)
    by (simp add: cmdAdd_found [OF assms(1)] eventsOf_def podFound_unfold ex ev
        split: option.splits)
  have ae: "annotationEvents (fst (redirectSetup x (setBinaries g conf) args info b)) = []" for b
    by (cases b) (simp_all add: redirectSetup_allowed split: sum.splits option.splits)
  have l: "annotationEvents (eventsOf (cmdAdd x g args))
      = [LogCheckingAnnotations, LogContainsInjectAnnotation (K8S_POD_NAME k) val]
        @ (if annotations info (sidecarStatusKey g) = None
           then [LogExcludedNoSidecarAnnotation (K8S_POD_NAME k)] else [])"
    using assms(2,3)
    by (simp add: cmdAdd_found [OF assms(1)] eventsOf_def podFound_unfold ex ev ae
        split: option.splits)
  show ?thesis
    using ic d m l a n by simp
qed

text \<open>
  The value \<^verbatim>\<open>"not-a-bool"\<close> of the specification's test, with the sidecar status
  present and with the sidecar status absent.
\<close>

theorem unparsable_inject_is_ignored_witness:
  "ParseBool ''not-a-bool'' = None
   \<and> EligibilityEvaluator initGlobals
        (demoPod [''app'', ''istio-proxy''] (injectAndStatus ''not-a-bool'') [''9080'']) = Allow
   \<and> annotationEvents (eventsOf (demoRun ''default''
        (demoPod [''app'', ''istio-proxy''] (injectAndStatus ''not-a-bool'') [''9080'']) None initGlobals))
      = [LogCheckingAnnotations, LogContainsInjectAnnotation ''app-1'' ''not-a-bool'']
   \<and> newRedirectCalls (eventsOf (demoRun ''default''
        (demoPod [''app'', ''istio-proxy''] (injectAndStatus ''not-a-bool'') [''9080'']) None initGlobals)) = 1
   \<and> injectCheck initGlobals ''app-1'' (injectOnly ''not-a-bool'') False
      = ([LogContainsInjectAnnotation ''app-1'' ''not-a-bool''], False)
   \<and> EligibilityEvaluator initGlobals
        (demoPod [''app'', ''istio-proxy''] (injectOnly ''not-a-bool'') [''9080''])
      \<noteq> ExcludedByInjectAnnotation
   \<and> annotationEvents (eventsOf (demoRun ''default''
        (demoPod [''app'', ''istio-proxy''] (injectOnly ''not-a-bool'') [''9080'']) None initGlobals))
      = [LogCheckingAnnotations, LogContainsInjectAnnotation ''app-1'' ''not-a-bool'',
         LogExcludedNoSidecarAnnotation ''app-1'']"
proof -
  have q: "podQueried (demoCollaborators (demoConf '''') (demoK8sArgs ''default'')
        (demoPod [''app'', ''istio-proxy''] ann [''9080'']) None)
     demoArgs (demoConf '''') (demoK8sArgs ''default'') 0
     (demoPod [''app'', ''istio-proxy''] ann [''9080''])" for ann
    by (rule demo_podQueried)
  have h: "hasProxy (demoPod [''app'', ''istio-proxy''] ann [''9080''])"
    "2 \<le> length (containers (demoPod [''app'', ''istio-proxy''] ann [''9080'']))" for ann
    by (simp_all add: demoPod_def)
  have present: "annotations (demoPod [''app'', ''istio-proxy''] (injectAndStatus ''not-a-bool'') [''9080''])
       (injectAnnotationKey initGlobals) = Some ''not-a-bool''"
    "annotations (demoPod [''app'', ''istio-proxy''] (injectAndStatus ''not-a-bool'') [''9080''])
       (sidecarStatusKey initGlobals) \<noteq> None"
    by (simp_all add: demoPod_def injectAndStatus_def initGlobals_def)
  have absent: "annotations (demoPod [''app'', ''istio-proxy''] (injectOnly ''not-a-bool'') [''9080''])
       (injectAnnotationKey initGlobals) = Some ''not-a-bool''"
    "annotations (demoPod [''app'', ''istio-proxy''] (injectOnly ''not-a-bool'') [''9080''])
       (sidecarStatusKey initGlobals) = None"
    by (simp_all add: demoPod_def injectOnly_def initGlobals_def)
  have p: "ParseBool ''not-a-bool'' = None"
    by (simp add: ParseBool_def)
  from unparsable_inject_is_ignored [OF q h present(1) p]
    unparsable_inject_is_ignored [OF q h absent(1) p] present(2) absent(2) p
  show ?thesis
    by (simp add: demoRun_def demoK8sArgs_def demoPod_def setBinaries_def demoConf_def
        initGlobals_def Let_def)
qed

subsection \<open>C5: the MetadataGate on name and namespace\<close>

text \<open>
  Claim C5 says that an ADD whose pod has an empty namespace or name, or a namespace in
  the exclusion list, performs no metadata query, raises no error and completes with the
  no-redirect outcome. On that path \<open>cmdAdd\<close> still returns the value of
  \<^verbatim>\<open>types.PrintResult\<close> (line 251), which can be an error: under a configuration of
  version 0.2.0 the fresh result has no IP address and does not convert, and the ADD of
  a pod in the excluded namespace \<^verbatim>\<open>kube-system\<close> returns that error.
\<close>

theorem excluded_namespace_print_error_counterexample:
  "parseConfig (legacyCollaborators ''kube-system'') (StdinData demoArgs) = Inr legacyConf
   \<and> types_LoadArgs (legacyCollaborators ''kube-system'') (Args demoArgs)
       = Inr (demoK8sArgs ''kube-system'')
   \<and> K8S_POD_NAMESPACE (demoK8sArgs ''kube-system'')
       \<in> set (ExcludeNamespaces (Kubernetes legacyConf))
   \<and> metadataQueries (eventsOf (legacyRun ''kube-system'')) = 0
   \<and> returned (legacyRun ''kube-system'') = Some (Err ''cannot convert: no valid IP addresses'')"
  by (simp add: run_defs demo_defs legacyRun_def legacyCollaborators_def legacyConf_def
      printWithoutAddress_def)

text \<open>
  Claim C5, amended: for every ADD in which the pod's namespace or name is empty, or the
  namespace equals an entry of the configured exclusion list, no metadata query is
  performed (neither the client is created nor the pod looked up) and nothing is
  redirected; the ADD goes on to print the result, once, and returns what the printing
  returns: no error when the printing succeeds, the error of the printing otherwise.
  Strings are compared by equality, which is exact and case-sensitive.
\<close>

theorem gate_skips_metadata_query:
  assumes "parseConfig x (StdinData args) = Inr conf"
    and "types_LoadArgs x (Args args) = Inr k"
    and "K8S_POD_NAMESPACE k = '''' \<or> K8S_POD_NAME k = ''''
           \<or> K8S_POD_NAMESPACE k \<in> set (ExcludeNamespaces (Kubernetes conf))"
  shows "metadataQueries (eventsOf (cmdAdd x g args)) = 0
       \<and> newRedirectCalls (eventsOf (cmdAdd x g args)) = 0
       \<and> executorCalls (eventsOf (cmdAdd x g args)) = 0
       \<and> printResultCalls (eventsOf (cmdAdd x g args)) = 1
       \<and> returned (cmdAdd x g args) = types_PrintResult x (passThrough x conf) (CNIVersion conf)
       \<and> (types_PrintResult x (passThrough x conf) (CNIVersion conf) = None \<longrightarrow>
            returned (cmdAdd x g args) = None)"
  by (simp add: cmdAdd_gated [OF assms] eventsOf_def returned_def)

text \<open>
  The pod of the example in the excluded namespace \<^verbatim>\<open>kube-system\<close>, and with an
  empty namespace. The match is exact: in \<^verbatim>\<open>Kube-System\<close> the pod is queried.
\<close>

theorem gate_skips_metadata_query_witness:
  "metadataQueries (eventsOf (demoRun ''kube-system'' meshPod None initGlobals)) = 0
   \<and> newRedirectCalls (eventsOf (demoRun ''kube-system'' meshPod None initGlobals)) = 0
   \<and> executorCalls (eventsOf (demoRun ''kube-system'' meshPod None initGlobals)) = 0
   \<and> printResultCalls (eventsOf (demoRun ''kube-system'' meshPod None initGlobals)) = 1
   \<and> returned (demoRun ''kube-system'' meshPod None initGlobals) = None
   \<and> metadataQueries (eventsOf (demoRun '''' meshPod None initGlobals)) = 0
   \<and> returned (demoRun '''' meshPod None initGlobals) = None
   \<and> metadataQueries (eventsOf (demoRun ''Kube-System'' meshPod None initGlobals)) = 2"
proof -
  have h: "parseConfig (demoCollaborators (demoConf '''') (demoK8sArgs ns) meshPod None)
       (StdinData demoArgs) = Inr (demoConf '''')"
    "types_LoadArgs (demoCollaborators (demoConf '''') (demoK8sArgs ns) meshPod None)
       (Args demoArgs) = Inr (demoK8sArgs ns)" for ns
    by (simp_all add: demoCollaborators_def parseConfig_def demoConf_def)
  have excluded: "K8S_POD_NAMESPACE (demoK8sArgs ''kube-system'') = ''''
       \<or> K8S_POD_NAME (demoK8sArgs ''kube-system'') = ''''
       \<or> K8S_POD_NAMESPACE (demoK8sArgs ''kube-system'')
           \<in> set (ExcludeNamespaces (Kubernetes (demoConf '''')))"
    by (simp add: demoConf_def demoK8sArgs_def)
  have unnamed: "K8S_POD_NAMESPACE (demoK8sArgs '''') = ''''
       \<or> K8S_POD_NAME (demoK8sArgs '''') = ''''
       \<or> K8S_POD_NAMESPACE (demoK8sArgs '''')
           \<in> set (ExcludeNamespaces (Kubernetes (demoConf '''')))"
    by (simp add: demoK8sArgs_def)
  have other: "metadataQueries (eventsOf (demoRun ''Kube-System'' meshPod None initGlobals)) = 2"
    by (simp add: run_defs demo_defs)
  from gate_skips_metadata_query [OF h excluded, of initGlobals]
    gate_skips_metadata_query [OF h unnamed, of initGlobals] other
  show ?thesis
    by (simp add: demoRun_def demoCollaborators_def)
qed

subsection \<open>C6: an empty port list\<close>

text \<open>
  Claim C6: the RedirectSpecBuilder given an empty list of ports fails with
  \<open>InvalidRedirectParameters\<close>, whatever the proxy's user and group identities are.
\<close>

theorem empty_ports_rejected:
  "RedirectSpecBuilder uid gid [] ann = Inl InvalidRedirectParameters"
  by (simp add: RedirectSpecBuilder_def)

text \<open>With the valid identity 1337 of the example.\<close>

theorem empty_ports_rejected_witness:
  "RedirectSpecBuilder 1337 1337 [] statusOnly = Inl InvalidRedirectParameters"
  by (rule empty_ports_rejected)

subsection \<open>C7: a failed construction fails the ADD\<close>

text \<open>
  Claim C7: whenever the decision is \<open>Allow\<close> and the construction of the RedirectSpec
  fails, \<open>cmdAdd\<close> returns that very error: the executor is not invoked and the
  result is not printed, so the ADD does not complete as a success without redirect.
\<close>

theorem construction_failure_fails_add:
  assumes "podQueried x args conf k client info"
    and "EligibilityEvaluator g info = Allow"
    and "NewRedirect x (proxyUID info) (proxyGID info) (ports info) (annotations info) = Inl err"
  shows "returned (cmdAdd x g args) = Some err
       \<and> newRedirectCalls (eventsOf (cmdAdd x g args)) = 1
       \<and> executorCalls (eventsOf (cmdAdd x g args)) = 0
       \<and> printResultCalls (eventsOf (cmdAdd x g args)) = 0"
proof -
  have pf: "podFound x (setBinaries g conf) args (K8S_POD_NAME k) info =
     ([LogFoundContainers (containers info), LogCheckingAnnotations]
        @ fst (annotationChecks (setBinaries g conf) (K8S_POD_NAME k) (annotations info) False)
        @ fst (redirectSetup x (setBinaries g conf) args info False),
      snd (redirectSetup x (setBinaries g conf) args info False))"
    using assms(2) by (simp add: podFound_allowed)
  show ?thesis
    using assms(3)
    by (simp add: cmdAdd_found [OF assms(1)] pf eventsOf_def returned_def redirectSetup_allowed)
qed

text \<open>The pod of the example with no declared port, and the builder of the specification.\<close>

theorem construction_failure_fails_add_witness:
  "returned (demoRun ''default'' (demoPod [''app'', ''istio-proxy''] statusOnly []) None initGlobals)
     = Some InvalidRedirectParameters
   \<and> newRedirectCalls (eventsOf (demoRun ''default''
        (demoPod [''app'', ''istio-proxy''] statusOnly []) None initGlobals)) = 1
   \<and> executorCalls (eventsOf (demoRun ''default''
        (demoPod [''app'', ''istio-proxy''] statusOnly []) None initGlobals)) = 0
   \<and> printResultCalls (eventsOf (demoRun ''default''
        (demoPod [''app'', ''istio-proxy''] statusOnly []) None initGlobals)) = 0"
proof -
  have q: "podQueried (demoCollaborators (demoConf '''') (demoK8sArgs ''default'')
        (demoPod [''app'', ''istio-proxy''] statusOnly []) None)
     demoArgs (demoConf '''') (demoK8sArgs ''default'') 0
     (demoPod [''app'', ''istio-proxy''] statusOnly [])"
    by (rule demo_podQueried)
  have h: "EligibilityEvaluator initGlobals (demoPod [''app'', ''istio-proxy''] statusOnly []) = Allow"
    "NewRedirect (demoCollaborators (demoConf '''') (demoK8sArgs ''default'')
        (demoPod [''app'', ''istio-proxy''] statusOnly []) None)
       (proxyUID (demoPod [''app'', ''istio-proxy''] statusOnly []))
       (proxyGID (demoPod [''app'', ''istio-proxy''] statusOnly []))
       (ports (demoPod [''app'', ''istio-proxy''] statusOnly []))
       (annotations (demoPod [''app'', ''istio-proxy''] statusOnly []))
     = Inl InvalidRedirectParameters"
    by (simp_all add: EligibilityEvaluator_def injectParsesFalse_def demo_defs)
  from construction_failure_fails_add [OF q h] show ?thesis
    by (simp add: demoRun_def)
qed

subsection \<open>C8: the result of the executor\<close>

text \<open>
  Claim C8 says that the result of the executor is the result of the ADD for every
  executor, the override included, so that an ADD whose executor fails does not report
  success. \<open>cmdAdd\<close> assigns the result of the override \<^verbatim>\<open>setupRedirect\<close> to
  \<^verbatim>\<open>_\<close> (line 228): with an override that returns an error the executor is invoked
  once, its error is dropped, and the ADD returns \<^verbatim>\<open>nil\<close>.
\<close>

theorem failing_override_counterexample:
  "EligibilityEvaluator (initGlobals\<lparr>setupRedirect := Some failingOverride\<rparr>) meshPod = Allow
   \<and> failingOverride (Netns demoArgs) (ports meshPod) = Some (Err ''redirect failed'')
   \<and> executorCalls (eventsOf (demoRun ''default'' meshPod None
        (initGlobals\<lparr>setupRedirect := Some failingOverride\<rparr>))) = 1
   \<and> returned (demoRun ''default'' meshPod None
        (initGlobals\<lparr>setupRedirect := Some failingOverride\<rparr>)) = None"
  by (simp add: run_defs demo_defs failingOverride_def EligibilityEvaluator_def
      injectParsesFalse_def)

text \<open>
  Claim C8, amended: when the decision is \<open>Allow\<close> and the RedirectSpec was
  constructed, the executor is invoked once. With no override installed, an error of
  \<^verbatim>\<open>doRedirect\<close> is returned verbatim as the result of the ADD and the result is not
  printed, so the ADD does not report success; when \<^verbatim>\<open>doRedirect\<close> returns no error
  the ADD returns what printing the result returns. With an override installed, the
  result of the override is discarded and the ADD returns what printing the result
  returns.
\<close>

theorem executor_error_returned_unless_overridden:
  assumes "podQueried x args conf k client info"
    and "EligibilityEvaluator g info = Allow"
    and "NewRedirect x (proxyUID info) (proxyGID info) (ports info) (annotations info) = Inr redirect"
  shows "executorCalls (eventsOf (cmdAdd x g args)) = 1
       \<and> (case setupRedirect g of
            None \<Rightarrow>
              (case doRedirect x (setBinaries g conf) redirect (Netns args) of
                 Some err \<Rightarrow> returned (cmdAdd x g args) = Some err
                             \<and> printResultCalls (eventsOf (cmdAdd x g args)) = 0
               | None \<Rightarrow> returned (cmdAdd x g args)
                           = types_PrintResult x (passThrough x conf) (CNIVersion conf))
          | Some override \<Rightarrow>
              returned (cmdAdd x g args)
                = types_PrintResult x (passThrough x conf) (CNIVersion conf))"
proof -
  have pf: "podFound x (setBinaries g conf) args (K8S_POD_NAME k) info =
     ([LogFoundContainers (containers info), LogCheckingAnnotations]
        @ fst (annotationChecks (setBinaries g conf) (K8S_POD_NAME k) (annotations info) False)
        @ fst (redirectSetup x (setBinaries g conf) args info False),
      snd (redirectSetup x (setBinaries g conf) args info False))"
    using assms(2) by (simp add: podFound_allowed)
  show ?thesis
    using assms(3)
    by (simp add: cmdAdd_found [OF assms(1)] pf eventsOf_def returned_def redirectSetup_allowed
        split: option.splits)
qed

text \<open>The pod of the example, no override, and a \<^verbatim>\<open>doRedirect\<close> that fails.\<close>

theorem executor_error_returned_unless_overridden_witness:
  "executorCalls (eventsOf (demoRun ''default'' meshPod (Some (Err ''iptables failed'')) initGlobals)) = 1
   \<and> returned (demoRun ''default'' meshPod (Some (Err ''iptables failed'')) initGlobals)
       = Some (Err ''iptables failed'')
   \<and> printResultCalls (eventsOf (demoRun ''default'' meshPod (Some (Err ''iptables failed'')) initGlobals)) = 0"
proof -
  have q: "podQueried (demoCollaborators (demoConf '''') (demoK8sArgs ''default'') meshPod
        (Some (Err ''iptables failed'')))
     demoArgs (demoConf '''') (demoK8sArgs ''default'') 0 meshPod"
    by (rule demo_podQueried)
  have h: "EligibilityEvaluator initGlobals meshPod = Allow"
    "NewRedirect (demoCollaborators (demoConf '''') (demoK8sArgs ''default'') meshPod
        (Some (Err ''iptables failed'')))
       (proxyUID meshPod) (proxyGID meshPod) (ports meshPod) (annotations meshPod)
     = Inr \<lparr>specProxyUID = 1337, specProxyGID = 1337, specPorts = [''9080''],
            specAnnotations = statusOnly\<rparr>"
    by (simp_all add: EligibilityEvaluator_def injectParsesFalse_def demoCollaborators_def
        meshPod_def demoPod_def statusOnly_def initGlobals_def RedirectSpecBuilder_def)
  from executor_error_returned_unless_overridden [OF q h] show ?thesis
    by (simp add: demoRun_def demoCollaborators_def initGlobals_def)
qed

subsection \<open>C9: the package-level variables\<close>

text \<open>
  Claim C9 says that \<open>cmdAdd\<close> leaves every package-level configuration variable
  unchanged. With a configuration that names a binary directory, \<open>cmdAdd\<close> assigns
  it to \<^verbatim>\<open>nsSetupBinDir\<close> (lines 161-163), and the variable keeps the value after the
  call: a later call in the same process, with a configuration that names no directory,
  runs with the directory of the earlier call.
\<close>

theorem bin_dir_overwritten_counterexample:
  "nsSetupBinDir initGlobals = ''/opt/cni/bin''
   \<and> nsSetupBinDir (globalsAfter
        (cmdAdd (demoCollaborators (demoConf ''/custom/bin'') (demoK8sArgs ''default'') meshPod None)
           initGlobals demoArgs)) = ''/custom/bin''
   \<and> nsSetupBinDir (globalsAfter (demoRun ''default'' meshPod None (globalsAfter
        (cmdAdd (demoCollaborators (demoConf ''/custom/bin'') (demoK8sArgs ''default'') meshPod None)
           initGlobals demoArgs)))) = ''/custom/bin''"
  by (simp add: run_defs demo_defs globalsAfter_def)

text \<open>
  Claim C9, amended: \<open>cmdAdd\<close> never assigns \<^verbatim>\<open>injectAnnotationKey\<close>,
  \<^verbatim>\<open>sidecarStatusKey\<close> or \<^verbatim>\<open>setupRedirect\<close>. It leaves all the variables unchanged
  when the configuration does not parse or the arguments do not load; otherwise, and
  whatever happens later in the call, \<^verbatim>\<open>nsSetupBinDir\<close> is the configured binary
  directory when that is not empty and unchanged when it is, and \<^verbatim>\<open>nsSetupProg\<close> is
  the configured script when that is not empty and unchanged when it is.
\<close>

theorem cmdAdd_assigns_only_binaries:
  "injectAnnotationKey (globalsAfter (cmdAdd x g args)) = injectAnnotationKey g
   \<and> sidecarStatusKey (globalsAfter (cmdAdd x g args)) = sidecarStatusKey g
   \<and> setupRedirect (globalsAfter (cmdAdd x g args)) = setupRedirect g
   \<and> (case parseConfig x (StdinData args) of
        Inl err \<Rightarrow> globalsAfter (cmdAdd x g args) = g
      | Inr conf \<Rightarrow>
          (case types_LoadArgs x (Args args) of
             Inl err \<Rightarrow> globalsAfter (cmdAdd x g args) = g
           | Inr k \<Rightarrow>
               nsSetupBinDir (globalsAfter (cmdAdd x g args))
                 = (if CniBinDir (Kubernetes conf) \<noteq> '''' then CniBinDir (Kubernetes conf)
                    else nsSetupBinDir g)
               \<and> nsSetupProg (globalsAfter (cmdAdd x g args))
                 = (if IptablesScript (Kubernetes conf) \<noteq> '''' then IptablesScript (Kubernetes conf)
                    else nsSetupProg g)))"
  by (simp add: cmdAdd_def globalsAfter_def setBinaries_def Let_def
      split: sum.splits prod.splits option.splits)

text \<open>
  A configuration with neither directory nor script leaves the variables as they were;
  one with a directory changes \<^verbatim>\<open>nsSetupBinDir\<close> alone.
\<close>

theorem cmdAdd_assigns_only_binaries_witness:
  "globalsAfter (demoRun ''default'' meshPod None initGlobals) = initGlobals
   \<and> globalsAfter
        (cmdAdd (demoCollaborators (demoConf ''/custom/bin'') (demoK8sArgs ''default'') meshPod None)
           initGlobals demoArgs) = initGlobals\<lparr>nsSetupBinDir := ''/custom/bin''\<rparr>"
  using cmdAdd_assigns_only_binaries [of
      "demoCollaborators (demoConf '''') (demoK8sArgs ''default'') meshPod None" initGlobals demoArgs]
    cmdAdd_assigns_only_binaries [of
      "demoCollaborators (demoConf ''/custom/bin'') (demoK8sArgs ''default'') meshPod None"
      initGlobals demoArgs]
  by (simp add: demoRun_def demoCollaborators_def parseConfig_def demoConf_def initGlobals_def)

subsection \<open>C10: the spellings of false and true\<close>

text \<open>
  Claim C10: the inject annotation excludes the pod for every value that
  \<^verbatim>\<open>strconv.ParseBool\<close> maps to false, that is \<^verbatim>\<open>0\<close>, \<^verbatim>\<open>f\<close>, \<^verbatim>\<open>F\<close>,
  \<^verbatim>\<open>false\<close>, \<^verbatim>\<open>FALSE\<close> and \<^verbatim>\<open>False\<close>, and for no value that it maps to true, that
  is \<^verbatim>\<open>1\<close>, \<^verbatim>\<open>t\<close>, \<^verbatim>\<open>T\<close>, \<^verbatim>\<open>true\<close>, \<^verbatim>\<open>TRUE\<close> and \<^verbatim>\<open>True\<close>: with one of
  these the inject exclusion is not logged, and the redirect is built exactly when the
  sidecar status is present.
\<close>

theorem inject_spellings:
  assumes "podQueried x args conf k client info"
    and "hasProxy info" and "2 \<le> length (containers info)"
    and "annotations info (injectAnnotationKey g) = Some val"
  shows "(val \<in> set [''0'', ''f'', ''F'', ''false'', ''FALSE'', ''False''] \<longrightarrow>
            EligibilityEvaluator g info = ExcludedByInjectAnnotation
            \<and> LogExcludedInjectDisabled \<in> set (eventsOf (cmdAdd x g args))
            \<and> newRedirectCalls (eventsOf (cmdAdd x g args)) = 0
            \<and> executorCalls (eventsOf (cmdAdd x g args)) = 0)
       \<and> (val \<in> set [''1'', ''t'', ''T'', ''true'', ''TRUE'', ''True''] \<longrightarrow>
            EligibilityEvaluator g info \<noteq> ExcludedByInjectAnnotation
            \<and> LogExcludedInjectDisabled \<notin> set (eventsOf (cmdAdd x g args))
            \<and> (EligibilityEvaluator g info = Allow) = (annotations info (sidecarStatusKey g) \<noteq> None)
            \<and> newRedirectCalls (eventsOf (cmdAdd x g args))
                = (if annotations info (sidecarStatusKey g) \<noteq> None then 1 else 0))"
proof (intro conjI impI)
  assume v: "val \<in> set [''0'', ''f'', ''F'', ''false'', ''FALSE'', ''False'']"
  then have p: "ParseBool val = Some False"
    by (auto simp add: ParseBool_def)
  then have d: "EligibilityEvaluator g info = ExcludedByInjectAnnotation"
    using assms(2-4) by (simp add: EligibilityEvaluator_def injectParsesFalse_def)
  then have na: "EligibilityEvaluator (setBinaries g conf) info \<noteq> Allow"
    by simp
  have ex: "snd (annotationChecks (setBinaries g conf) (K8S_POD_NAME k) (annotations info) False)"
    using assms(4) p by (simp add: annotationChecks_excludes injectParsesFalse_def)
  have m: "LogExcludedInjectDisabled
             \<in> set (fst (podFound x (setBinaries g conf) args (K8S_POD_NAME k) info))"
    using assms(2-4) p by (simp add: podFound_unfold ex annotationChecks_events)
  show "EligibilityEvaluator g info = ExcludedByInjectAnnotation"
    by (rule d)
  show "LogExcludedInjectDisabled \<in> set (eventsOf (cmdAdd x g args))"
    using m by (simp add: cmdAdd_found [OF assms(1)] eventsOf_def)
  show "newRedirectCalls (eventsOf (cmdAdd x g args)) = 0"
    using podFound_excluded [OF na, of x args "K8S_POD_NAME k"]
    by (simp add: cmdAdd_found [OF assms(1)] eventsOf_def)
  show "executorCalls (eventsOf (cmdAdd x g args)) = 0"
    using podFound_excluded [OF na, of x args "K8S_POD_NAME k"]
    by (simp add: cmdAdd_found [OF assms(1)] eventsOf_def)
next
  assume v: "val \<in> set [''1'', ''t'', ''T'', ''true'', ''TRUE'', ''True'']"
  then have p: "ParseBool val = Some True"
    by (auto simp add: ParseBool_def)
  have nf: "\<not> injectParsesFalse g (annotations info)"
    using assms(4) p by (simp add: injectParsesFalse_def)
  have ex: "snd (annotationChecks (setBinaries g conf) (K8S_POD_NAME k) (annotations info) False)
              = (annotations info (sidecarStatusKey g) = None)"
    using assms(4) p by (simp add: annotationChecks_excludes injectParsesFalse_def)
  have ev: "fst (annotationChecks (setBinaries g conf) (K8S_POD_NAME k) (annotations info) False)
      = LogContainsInjectAnnotation (K8S_POD_NAME k) val
        # (if annotations info (sidecarStatusKey g) = None
           then [LogExcludedNoSidecarAnnotation (K8S_POD_NAME k)] else [])"
    using assms(4) p by (simp add: annotationChecks_events)
  show "EligibilityEvaluator g info \<noteq> ExcludedByInjectAnnotation"
    using nf by (simp add: EligibilityEvaluator_def)
  show "LogExcludedInjectDisabled \<notin> set (eventsOf (cmdAdd x g args))"
    using assms(2,3)
    by (simp add: cmdAdd_found [OF assms(1)] eventsOf_def podFound_unfold ex ev
        redirectSetup_allowed split: sum.splits option.splits)
  show "(EligibilityEvaluator g info = Allow) = (annotations info (sidecarStatusKey g) \<noteq> None)"
    using nf assms(2,3) by (simp add: EligibilityEvaluator_def)
  show "newRedirectCalls (eventsOf (cmdAdd x g args))
          = (if annotations info (sidecarStatusKey g) \<noteq> None then 1 else 0)"
    using assms(2,3)
    by (simp add: cmdAdd_found [OF assms(1)] eventsOf_def podFound_unfold ex ev
        redirectSetup_allowed split: sum.splits option.splits)
qed

text \<open>The pod of the example with the inject annotation \<^verbatim>\<open>"F"\<close>, and with \<^verbatim>\<open>"T"\<close>.\<close>

theorem inject_spellings_witness:
  "EligibilityEvaluator initGlobals
      (demoPod [''app'', ''istio-proxy''] (injectAndStatus ''F'') [''9080'']) = ExcludedByInjectAnnotation
   \<and> LogExcludedInjectDisabled \<in> set (eventsOf (demoRun ''default''
        (demoPod [''app'', ''istio-proxy''] (injectAndStatus ''F'') [''9080'']) None initGlobals))
   \<and> newRedirectCalls (eventsOf (demoRun ''default''
        (demoPod [''app'', ''istio-proxy''] (injectAndStatus ''F'') [''9080'']) None initGlobals)) = 0
   \<and> EligibilityEvaluator initGlobals
      (demoPod [''app'', ''istio-proxy''] (injectAndStatus ''T'') [''9080'']) = Allow
   \<and> LogExcludedInjectDisabled \<notin> set (eventsOf (demoRun ''default''
        (demoPod [''app'', ''istio-proxy''] (injectAndStatus ''T'') [''9080'']) None initGlobals))
   \<and> newRedirectCalls (eventsOf (demoRun ''default''
        (demoPod [''app'', ''istio-proxy''] (injectAndStatus ''T'') [''9080'']) None initGlobals)) = 1"
proof -
  have q: "podQueried (demoCollaborators (demoConf '''') (demoK8sArgs ''default'')
        (demoPod [''app'', ''istio-proxy''] (injectAndStatus v) [''9080'']) None)
     demoArgs (demoConf '''') (demoK8sArgs ''default'') 0
     (demoPod [''app'', ''istio-proxy''] (injectAndStatus v) [''9080''])" for v
    by (rule demo_podQueried)
  have h: "hasProxy (demoPod [''app'', ''istio-proxy''] (injectAndStatus v) [''9080''])"
    "2 \<le> length (containers (demoPod [''app'', ''istio-proxy''] (injectAndStatus v) [''9080'']))"
    "annotations (demoPod [''app'', ''istio-proxy''] (injectAndStatus v) [''9080''])
       (injectAnnotationKey initGlobals) = Some v" for v
    by (simp_all add: demoPod_def injectAndStatus_def initGlobals_def)
  have s: "annotations (demoPod [''app'', ''istio-proxy''] (injectAndStatus ''T'') [''9080''])
       (sidecarStatusKey initGlobals) \<noteq> None"
    by (simp add: demoPod_def injectAndStatus_def initGlobals_def)
  from inject_spellings [OF q h, of "''F''"] inject_spellings [OF q h, of "''T''"] s
  show ?thesis
    by (simp add: demoRun_def)
qed

end
